theory Spec2Isabelle
  imports Main "HOL-Library.AList"
begin

section \<open>Python values used by seq2seq/tasks/training\_task.py\<close>

text \<open>
  The module handles configuration values (strings, lists, dictionaries), the objects that
  names resolve to (classes, modules) and the instances that constructor calls produce.
  An instance is represented by the name of its class together with the positional and
  keyword arguments its constructor received; object identity is not part of the model.
  A dictionary is an association list in insertion order with pairwise distinct keys.
\<close>

datatype pyerror =
    KeyError
  | AttributeError
  | TypeError
  | IndexError
  | ValueError
  | ErrorDuringImport
  | Raised string

datatype pyval =
    PyNone
  | PyInt int
  | PyStr string
  | PyList "pyval list"
  | PyDict "(pyval \<times> pyval) list"
  | PyClass string
  | PyModule string
  | PyInst string "pyval list" "(string \<times> pyval) list"

text \<open>
  Truth value testing, as the operator \<^verbatim>\<open>or\<close> applies it to its left operand: None,
  zero and the empty string, list and dictionary are falsy; classes, modules and instances
  are truthy, as every object is whose class defines neither \<^verbatim>\<open>__bool__\<close> nor
  \<^verbatim>\<open>__len__\<close>.
\<close>

fun truthy :: "pyval \<Rightarrow> bool" where
  "truthy PyNone = False"
| "truthy (PyInt i) = (i \<noteq> 0)"
| "truthy (PyStr s) = (s \<noteq> [])"
| "truthy (PyList xs) = (xs \<noteq> [])"
| "truthy (PyDict d) = (d \<noteq> [])"
| "truthy (PyClass c) = True"
| "truthy (PyModule m) = True"
| "truthy (PyInst c args kwargs) = True"

text \<open>Lists and dictionaries cannot be dictionary keys.\<close>

fun hashable :: "pyval \<Rightarrow> bool" where
  "hashable (PyList xs) = False"
| "hashable (PyDict d) = False"
| "hashable v = True"

text \<open>Indexing a sequence of length \<open>n\<close>: a negative index counts from the end.\<close>

definition seq_index :: "'a list \<Rightarrow> int \<Rightarrow> pyerror + 'a" where
  "seq_index xs i =
     (if 0 \<le> i \<and> i < int (length xs) then Inr (xs ! nat i)
      else if i < 0 \<and> - int (length xs) \<le> i then Inr (xs ! nat (int (length xs) + i))
      else Inl IndexError)"

text \<open>The subscription \<^verbatim>\<open>obj[key]\<close>.\<close>

fun py_getitem :: "pyval \<Rightarrow> pyval \<Rightarrow> pyerror + pyval" where
  "py_getitem (PyDict d) key =
     (if \<not> hashable key then Inl TypeError
      else (case map_of d key of None \<Rightarrow> Inl KeyError | Some v \<Rightarrow> Inr v))"
| "py_getitem (PyList xs) (PyInt i) = seq_index xs i"
| "py_getitem (PyStr s) (PyInt i) =
     (case seq_index s i of Inl e \<Rightarrow> Inl e | Inr c \<Rightarrow> Inr (PyStr [c]))"
| "py_getitem obj key = Inl TypeError"

text \<open>The elements a \<^verbatim>\<open>for\<close> loop visits, in order.\<close>

fun py_iter :: "pyval \<Rightarrow> pyerror + pyval list" where
  "py_iter (PyList xs) = Inr xs"
| "py_iter (PyStr s) = Inr (map (\<lambda>c. PyStr [c]) s)"
| "py_iter (PyDict d) = Inr (map fst d)"
| "py_iter obj = Inl TypeError"

text \<open>
  \<^verbatim>\<open>getattr(module, name)\<close> on a module whose attributes are given as a map: the name
  has to be a string, and a missing attribute raises AttributeError.
\<close>

fun py_getattr :: "(string \<rightharpoonup> pyval) \<Rightarrow> pyval \<Rightarrow> pyerror + pyval" where
  "py_getattr attrs (PyStr name) =
     (case attrs name of None \<Rightarrow> Inl AttributeError | Some v \<Rightarrow> Inr v)"
| "py_getattr attrs obj = Inl TypeError"

section \<open>The environment of the module\<close>

text \<open>
  Everything the module imports is a parameter of the model:
  \<^item> \<open>locate\<close> is \<^verbatim>\<open>pydoc.locate\<close> on a string: it returns an object, returns None
    (\<open>Inr PyNone\<close>) when nothing is found, or raises;
  \<^item> \<open>models\<close> and \<open>hooks\<close> are the attributes of the modules \<^verbatim>\<open>seq2seq.models\<close> and
    \<^verbatim>\<open>seq2seq.training.hooks\<close>;
  \<^item> \<open>METRIC_SPECS_DICT\<close> is the table of \<^verbatim>\<open>seq2seq.metrics.metric_specs\<close>;
  \<^item> \<open>PrintModelAnalysisHook_default_params\<close> and \<open>MetadataCaptureHook_default_params\<close>
    are what the static method \<^verbatim>\<open>default_params()\<close> of the two hook classes returns;
  \<^item> \<open>parse_params\<close> is the merge of \<^verbatim>\<open>Configurable.__init__\<close> (see below);
  \<^item> \<open>init_raises\<close> tells whether the constructor of a class raises on given arguments;
  \<^item> \<open>call_instance\<close> is the result of calling an instance.
\<close>

record pyenv =
  locate :: "string \<Rightarrow> pyerror + pyval"
  models :: "string \<rightharpoonup> pyval"
  hooks :: "string \<rightharpoonup> pyval"
  METRIC_SPECS_DICT :: "(pyval \<times> pyval) list"
  PrintModelAnalysisHook_default_params :: pyval
  MetadataCaptureHook_default_params :: pyval
  parse_params :: "pyval \<Rightarrow> pyval \<Rightarrow> pyerror + pyval"
  init_raises :: "string \<Rightarrow> pyval list \<Rightarrow> (string \<times> pyval) list \<Rightarrow> pyerror option"
  call_instance :: "pyval \<Rightarrow> pyval list \<Rightarrow> (string \<times> pyval) list \<Rightarrow> pyerror + pyval"

text \<open>
  \<^verbatim>\<open>locate(path)\<close> begins with \<^verbatim>\<open>path.split('.')\<close>, which only a string has: any other
  argument raises AttributeError.
\<close>

fun py_locate :: "pyenv \<Rightarrow> pyval \<Rightarrow> pyerror + pyval" where
  "py_locate env (PyStr path) = locate env path"
| "py_locate env obj = Inl AttributeError"

text \<open>
  The call \<^verbatim>\<open>f(*args, **kwargs)\<close>. Calling a class runs its constructor and gives a new
  instance of that class; None, numbers, strings, lists, dictionaries and modules are not
  callable.
\<close>

fun py_call :: "pyenv \<Rightarrow> pyval \<Rightarrow> pyval list \<Rightarrow> (string \<times> pyval) list \<Rightarrow> pyerror + pyval" where
  "py_call env (PyClass c) args kwargs =
     (case init_raises env c args kwargs of
        Some e \<Rightarrow> Inl e
      | None \<Rightarrow> Inr (PyInst c args kwargs))"
| "py_call env (PyInst c a k) args kwargs = call_instance env (PyInst c a k) args kwargs"
| "py_call env f args kwargs = Inl TypeError"

section \<open>TrainingTask\<close>

text \<open>The two attributes of a task: \<^verbatim>\<open>self.params\<close> and \<^verbatim>\<open>self._model_cls\<close>.\<close>

record TrainingTask =
  params :: pyval
  model_cls :: pyval

text \<open>An estimator is read only through its attribute \<^verbatim>\<open>model_dir\<close>.\<close>

record estimator =
  model_dir :: pyval

text \<open>\<^verbatim>\<open>TrainingTask.default_params()\<close>, lines 54 to 70.\<close>

definition default_params :: "pyenv \<Rightarrow> pyval" where
  "default_params env =
     PyDict [
       (PyStr ''metrics'', PyList []),
       (PyStr ''model_class'', PyStr ''''),
       (PyStr ''model_params'', PyDict []),
       (PyStr ''hooks'', PyList [
          PyDict [
            (PyStr ''class'', PyStr ''PrintModelAnalysisHook''),
            (PyStr ''params'', PrintModelAnalysisHook_default_params env)],
          PyDict [
            (PyStr ''class'', PyStr ''MetadataCaptureHook''),
            (PyStr ''params'', MetadataCaptureHook_default_params env)]])]"

text \<open>
  Modelled from the spec: \<^verbatim>\<open>Configurable.__init__\<close> of seq2seq/configurable.py, which
  is not among the sources. The spec says that the class is to "merge and validate a
  configuration dictionary": the constructor merges the dictionary it is given with the
  \<^verbatim>\<open>default_params()\<close> of the class and keeps the result as \<^verbatim>\<open>self.params\<close>, or raises.
  The merge itself is the parameter \<open>parse_params\<close>; the second argument of the
  constructor is the mode, which the task does not read.
\<close>

definition Configurable_init :: "pyenv \<Rightarrow> pyval \<Rightarrow> pyval \<Rightarrow> pyval \<Rightarrow> pyerror + pyval" where
  "Configurable_init env user_params mode defaults = parse_params env user_params defaults"

text \<open>
  The expression \<^verbatim>\<open>locate(name) or getattr(module, name)\<close> of lines 51-52 and 96-97.
  The operator \<^verbatim>\<open>or\<close> evaluates \<^verbatim>\<open>getattr\<close> only when the result of \<^verbatim>\<open>locate\<close> is
  falsy, and then returns whatever \<^verbatim>\<open>getattr\<close> returns.
\<close>

definition locate_or_getattr :: "pyenv \<Rightarrow> (string \<rightharpoonup> pyval) \<Rightarrow> pyval \<Rightarrow> pyerror + pyval" where
  "locate_or_getattr env attrs name =
     (case py_locate env name of
        Inl e \<Rightarrow> Inl e
      | Inr found \<Rightarrow> if truthy found then Inr found else py_getattr attrs name)"

text \<open>\<^verbatim>\<open>TrainingTask.__init__\<close>, lines 49 to 52.\<close>

definition TrainingTask_init :: "pyenv \<Rightarrow> pyval \<Rightarrow> pyerror + TrainingTask" where
  "TrainingTask_init env user_params =
     (case Configurable_init env user_params PyNone (default_params env) of
        Inl e \<Rightarrow> Inl e
      | Inr self_params \<Rightarrow>
         (case py_getitem self_params (PyStr ''model_class'') of
            Inl e \<Rightarrow> Inl e
          | Inr name \<Rightarrow>
             (case locate_or_getattr env (models env) name of
                Inl e \<Rightarrow> Inl e
              | Inr cls \<Rightarrow> Inr \<lparr>params = self_params, model_cls = cls\<rparr>)))"

text \<open>
  The three methods below take the task and return their outcome together with the task
  as the body of the method leaves it: no method assigns to an attribute of \<^verbatim>\<open>self\<close>.
  What the constructors called by \<^verbatim>\<open>create_model\<close> and \<^verbatim>\<open>create_training_hooks\<close> do
  to the dictionaries they are handed is added in a section of its own below.

  \<^verbatim>\<open>TrainingTask.create_model\<close>, lines 72 to 83. The keyword arguments are evaluated
  before the call is made.
\<close>

definition create_model ::
  "pyenv \<Rightarrow> TrainingTask \<Rightarrow> pyval \<Rightarrow> (pyerror + pyval) \<times> TrainingTask" where
  "create_model env self mode =
     (case py_getitem (params self) (PyStr ''model_params'') of
        Inl e \<Rightarrow> (Inl e, self)
      | Inr model_params \<Rightarrow>
         (py_call env (model_cls self) [] [(''params'', model_params), (''mode'', mode)],
          self))"

text \<open>The body of the loop of \<^verbatim>\<open>create_training_hooks\<close>, lines 96 to 98.\<close>

definition create_hook :: "pyenv \<Rightarrow> estimator \<Rightarrow> pyval \<Rightarrow> pyerror + pyval" where
  "create_hook env est hook_dict =
     (case py_getitem hook_dict (PyStr ''class'') of
        Inl e \<Rightarrow> Inl e
      | Inr name \<Rightarrow>
         (case locate_or_getattr env (hooks env) name of
            Inl e \<Rightarrow> Inl e
          | Inr hook_cls \<Rightarrow>
             (case py_getitem hook_dict (PyStr ''params'') of
                Inl e \<Rightarrow> Inl e
              | Inr hook_params \<Rightarrow> py_call env hook_cls [hook_params, model_dir est] [])))"

text \<open>The loop of lines 95 to 99 over the entries still to visit.\<close>

fun hooks_loop :: "pyenv \<Rightarrow> estimator \<Rightarrow> pyval list \<Rightarrow> pyval list \<Rightarrow> pyerror + pyval list" where
  "hooks_loop env est [] training_hooks = Inr training_hooks"
| "hooks_loop env est (hook_dict # rest) training_hooks =
     (case create_hook env est hook_dict of
        Inl e \<Rightarrow> Inl e
      | Inr hook \<Rightarrow> hooks_loop env est rest (training_hooks @ [hook]))"

text \<open>\<^verbatim>\<open>TrainingTask.create_training_hooks\<close>, lines 85 to 100.\<close>

definition create_training_hooks ::
  "pyenv \<Rightarrow> TrainingTask \<Rightarrow> estimator \<Rightarrow> (pyerror + pyval) \<times> TrainingTask" where
  "create_training_hooks env self est =
     (case py_getitem (params self) (PyStr ''hooks'') of
        Inl e \<Rightarrow> (Inl e, self)
      | Inr hook_dicts \<Rightarrow>
         (case py_iter hook_dicts of
            Inl e \<Rightarrow> (Inl e, self)
          | Inr entries \<Rightarrow>
             (case hooks_loop env est entries [] of
                Inl e \<Rightarrow> (Inl e, self)
              | Inr training_hooks \<Rightarrow> (Inr (PyList training_hooks), self))))"

text \<open>
  The dictionary comprehension of line 108: for each \<open>m\<close> in turn the value
  \<^verbatim>\<open>METRIC_SPECS_DICT[m]\<close> is looked up and stored under the key \<open>m\<close>. Storing under a
  key that is already there replaces its value and keeps its position.
\<close>

fun metrics_comprehension ::
  "pyenv \<Rightarrow> pyval list \<Rightarrow> (pyval \<times> pyval) list \<Rightarrow> pyerror + (pyval \<times> pyval) list" where
  "metrics_comprehension env [] acc = Inr acc"
| "metrics_comprehension env (m # ms) acc =
     (case py_getitem (PyDict (METRIC_SPECS_DICT env)) m of
        Inl e \<Rightarrow> Inl e
      | Inr spec \<Rightarrow> metrics_comprehension env ms (AList.update m spec acc))"

text \<open>\<^verbatim>\<open>TrainingTask.create_metrics\<close>, lines 102 to 108.\<close>

definition create_metrics :: "pyenv \<Rightarrow> TrainingTask \<Rightarrow> (pyerror + pyval) \<times> TrainingTask" where
  "create_metrics env self =
     (case py_getitem (params self) (PyStr ''metrics'') of
        Inl e \<Rightarrow> (Inl e, self)
      | Inr metrics \<Rightarrow>
         (case py_iter metrics of
            Inl e \<Rightarrow> (Inl e, self)
          | Inr ms \<Rightarrow>
             (case metrics_comprehension env ms [] of
                Inl e \<Rightarrow> (Inl e, self)
              | Inr d \<Rightarrow> (Inr (PyDict d), self))))"

section \<open>Dictionaries handed to constructors\<close>

text \<open>
  Lines 81-83 hand the constructor of the model the dictionary that is stored under
  'model\_params' in \<^verbatim>\<open>self.params\<close>, and line 98 hands the constructor of a hook the
  dictionary stored under 'params' in the entry: the object itself, not a copy. Whatever
  the constructor does to that object is therefore seen in \<^verbatim>\<open>self.params\<close> afterwards.
  The definitions above follow the values only. The ones below add this sharing: the
  parameter \<open>arg_after f args kwargs v\<close> says what the argument object \<open>v\<close> holds when the
  call \<^verbatim>\<open>f(*args, **kwargs)\<close> has ended, by returning or by raising, and the methods
  return the task with that content in the place of the object handed out. Distinct
  places of the configuration are taken to hold distinct objects.
\<close>

type_synonym callee_effect = "pyval \<Rightarrow> pyval list \<Rightarrow> (string \<times> pyval) list \<Rightarrow> pyval \<Rightarrow> pyval"

fun runs_code :: "pyval \<Rightarrow> bool" where
  "runs_code (PyClass c) = True"
| "runs_code (PyInst c args kwargs) = True"
| "runs_code f = False"

fun same_kind :: "pyval \<Rightarrow> pyval \<Rightarrow> bool" where
  "same_kind (PyList xs) (PyList ys) = True"
| "same_kind (PyDict d) (PyDict d') = True"
| "same_kind v w = False"

definition left_by ::
  "callee_effect \<Rightarrow> pyval \<Rightarrow> pyval list \<Rightarrow> (string \<times> pyval) list \<Rightarrow> pyval \<Rightarrow> pyval" where
  "left_by arg_after f args kwargs v =
     (if runs_code f \<and> same_kind v (arg_after f args kwargs v)
      then arg_after f args kwargs v
      else v)"

fun store_item :: "pyval \<Rightarrow> pyval \<Rightarrow> pyval \<Rightarrow> pyval" where
  "store_item (PyDict d) key v = PyDict (AList.update key v d)"
| "store_item obj key v = obj"

definition create_model_shared ::
  "pyenv \<Rightarrow> callee_effect \<Rightarrow> TrainingTask \<Rightarrow> pyval \<Rightarrow> (pyerror + pyval) \<times> TrainingTask" where
  "create_model_shared env arg_after self mode =
     (case py_getitem (params self) (PyStr ''model_params'') of
        Inl e \<Rightarrow> (Inl e, self)
      | Inr model_params \<Rightarrow>
         (py_call env (model_cls self) [] [(''params'', model_params), (''mode'', mode)],
          self\<lparr>params :=
            store_item (params self) (PyStr ''model_params'')
              (left_by arg_after (model_cls self) []
                 [(''params'', model_params), (''mode'', mode)] model_params)\<rparr>))"

definition create_hook_shared ::
  "pyenv \<Rightarrow> callee_effect \<Rightarrow> estimator \<Rightarrow> pyval \<Rightarrow> (pyerror + pyval) \<times> pyval" where
  "create_hook_shared env arg_after est hook_dict =
     (case py_getitem hook_dict (PyStr ''class'') of
        Inl e \<Rightarrow> (Inl e, hook_dict)
      | Inr name \<Rightarrow>
         (case locate_or_getattr env (hooks env) name of
            Inl e \<Rightarrow> (Inl e, hook_dict)
          | Inr hook_cls \<Rightarrow>
             (case py_getitem hook_dict (PyStr ''params'') of
                Inl e \<Rightarrow> (Inl e, hook_dict)
              | Inr hook_params \<Rightarrow>
                 (py_call env hook_cls [hook_params, model_dir est] [],
                  store_item hook_dict (PyStr ''params'')
                    (left_by arg_after hook_cls [hook_params, model_dir est] []
                       hook_params)))))"

fun hooks_loop_shared ::
  "pyenv \<Rightarrow> callee_effect \<Rightarrow> estimator \<Rightarrow> pyval list \<Rightarrow> pyval list
     \<Rightarrow> (pyerror + pyval list) \<times> pyval list" where
  "hooks_loop_shared env arg_after est [] training_hooks = (Inr training_hooks, [])"
| "hooks_loop_shared env arg_after est (hook_dict # rest) training_hooks =
     (case create_hook_shared env arg_after est hook_dict of
        (Inl e, hook_dict') \<Rightarrow> (Inl e, hook_dict' # rest)
      | (Inr hook, hook_dict') \<Rightarrow>
         (case hooks_loop_shared env arg_after est rest (training_hooks @ [hook]) of
            (outcome, rest') \<Rightarrow> (outcome, hook_dict' # rest')))"

fun store_entries :: "pyval \<Rightarrow> pyval list \<Rightarrow> pyval" where
  "store_entries (PyList xs) entries = PyList entries"
| "store_entries obj entries = obj"

definition create_training_hooks_shared ::
  "pyenv \<Rightarrow> callee_effect \<Rightarrow> TrainingTask \<Rightarrow> estimator
     \<Rightarrow> (pyerror + pyval) \<times> TrainingTask" where
  "create_training_hooks_shared env arg_after self est =
     (case py_getitem (params self) (PyStr ''hooks'') of
        Inl e \<Rightarrow> (Inl e, self)
      | Inr hook_dicts \<Rightarrow>
         (case py_iter hook_dicts of
            Inl e \<Rightarrow> (Inl e, self)
          | Inr entries \<Rightarrow>
             (case hooks_loop_shared env arg_after est entries [] of
                (outcome, entries') \<Rightarrow>
                  (case outcome of
                     Inl e \<Rightarrow> Inl e
                   | Inr training_hooks \<Rightarrow> Inr (PyList training_hooks),
                   self\<lparr>params :=
                     store_item (params self) (PyStr ''hooks'')
                       (store_entries hook_dicts entries')\<rparr>))))"

section \<open>pydoc.locate\<close>

text \<open>
  The function \<^verbatim>\<open>locate\<close> of the standard library (Lib/pydoc.py), which the module
  imports, over the two things it reads: \<open>safeimport\<close>, which returns a module, None when
  there is no module of that name, or raises ErrorDuringImport; and the attributes of
  objects.
  \<^verbatim>\<open>
  def locate(path, forceload=0):
      parts = [part for part in path.split('.') if part]
      module, n = None, 0
      while n < len(parts):
          nextmodule = safeimport('.'.join(parts[:n+1]), forceload)
          if nextmodule: module, n = nextmodule, n + 1
          else: break
      if module:
          object = module
      else:
          object = builtins
      for part in parts[n:]:
          try:
              object = getattr(object, part)
          except AttributeError:
              return None
      return object
  \<close>
\<close>

text \<open>\<^verbatim>\<open>s.split(sep)\<close> for a separator of one character.\<close>

fun split_on :: "char \<Rightarrow> string \<Rightarrow> string list" where
  "split_on sep [] = [[]]"
| "split_on sep (c # cs) =
     (if c = sep then [] # split_on sep cs
      else (case split_on sep cs of
              [] \<Rightarrow> [[c]]
            | w # ws \<Rightarrow> (c # w) # ws))"

text \<open>\<^verbatim>\<open>sep.join(parts)\<close>.\<close>

fun join_with :: "string \<Rightarrow> string list \<Rightarrow> string" where
  "join_with sep [] = []"
| "join_with sep [p] = p"
| "join_with sep (p # q # ps) = p @ sep @ join_with sep (q # ps)"

function import_loop ::
  "(string \<Rightarrow> pyerror + pyval) \<Rightarrow> string list \<Rightarrow> pyval \<Rightarrow> nat \<Rightarrow> pyerror + (pyval \<times> nat)" where
  "import_loop safeimport parts module n =
     (if n < length parts
      then (case safeimport (join_with ''.'' (take (n + 1) parts)) of
              Inl e \<Rightarrow> Inl e
            | Inr nextmodule \<Rightarrow>
               if truthy nextmodule
               then import_loop safeimport parts nextmodule (n + 1)
               else Inr (module, n))
      else Inr (module, n))"
  by pat_completeness auto
termination
  by (relation "measure (\<lambda>(safeimport, parts, module, n). length parts - n)") auto

fun getattr_loop :: "(pyval \<Rightarrow> string \<Rightarrow> pyval option) \<Rightarrow> pyval \<Rightarrow> string list \<Rightarrow> pyval" where
  "getattr_loop attr_of object [] = object"
| "getattr_loop attr_of object (part # rest) =
     (case attr_of object part of
        None \<Rightarrow> PyNone
      | Some v \<Rightarrow> getattr_loop attr_of v rest)"

definition pydoc_locate ::
  "(string \<Rightarrow> pyerror + pyval) \<Rightarrow> (pyval \<Rightarrow> string \<Rightarrow> pyval option) \<Rightarrow> string
     \<Rightarrow> pyerror + pyval" where
  "pydoc_locate safeimport attr_of path =
     (let parts = filter (\<lambda>part. part \<noteq> []) (split_on CHR ''.'' path)
      in case import_loop safeimport parts PyNone 0 of
           Inl e \<Rightarrow> Inl e
         | Inr (module, n) \<Rightarrow>
            Inr (getattr_loop attr_of
                   (if truthy module then module else PyModule ''builtins'')
                   (drop n parts)))"

section \<open>An example environment\<close>

text \<open>
  A small interpreter state on which the definitions can be run: the package
  \<^verbatim>\<open>seq2seq\<close> with one model class, the two default hook classes, one metric and
  \<^verbatim>\<open>pydoc.locate\<close> as above.
\<close>

definition example_safeimport :: "string \<Rightarrow> pyerror + pyval" where
  "example_safeimport path =
     (if path = ''seq2seq'' then Inr (PyModule ''seq2seq'')
      else if path = ''seq2seq.models'' then Inr (PyModule ''seq2seq.models'')
      else if path = ''seq2seq.training'' then Inr (PyModule ''seq2seq.training'')
      else if path = ''seq2seq.training.hooks'' then Inr (PyModule ''seq2seq.training.hooks'')
      else Inr PyNone)"

definition example_models :: "string \<rightharpoonup> pyval" where
  "example_models = [''BasicSeq2Seq'' \<mapsto> PyClass ''BasicSeq2Seq'']"

definition example_hooks :: "string \<rightharpoonup> pyval" where
  "example_hooks =
     [''PrintModelAnalysisHook'' \<mapsto> PyClass ''PrintModelAnalysisHook'',
      ''MetadataCaptureHook'' \<mapsto> PyClass ''MetadataCaptureHook'']"

fun example_attr_of :: "pyval \<Rightarrow> string \<Rightarrow> pyval option" where
  "example_attr_of (PyModule m) name =
     (if m = ''seq2seq.models'' then example_models name
      else if m = ''seq2seq.training.hooks'' then example_hooks name
      else None)"
| "example_attr_of obj name = None"

text \<open>
  Modelled from the spec: the merge of \<^verbatim>\<open>Configurable.__init__\<close> (seq2seq/configurable.py
  is not among the sources), for the example environment only. To "merge and validate a
  configuration dictionary" is taken as: no dictionary stands for the empty one, a key
  that the defaults do not have is rejected, and every other entry of the caller replaces
  the default of the same key.
\<close>

fun example_parse_params :: "pyval \<Rightarrow> pyval \<Rightarrow> pyerror + pyval" where
  "example_parse_params PyNone (PyDict defaults) = Inr (PyDict defaults)"
| "example_parse_params (PyDict user) (PyDict defaults) =
     (if list_all (\<lambda>k. k \<in> set (map fst defaults)) (map fst user)
      then Inr (PyDict (fold (\<lambda>(k, v). AList.update k v) user defaults))
      else Inl ValueError)"
| "example_parse_params user defaults = Inl TypeError"

definition example_env :: pyenv where
  "example_env =
     \<lparr>locate = pydoc_locate example_safeimport example_attr_of,
      models = example_models,
      hooks = example_hooks,
      METRIC_SPECS_DICT = [(PyStr ''bleu'', PyInst ''BleuMetricSpec'' [] [])],
      PrintModelAnalysisHook_default_params = PyDict [],
      MetadataCaptureHook_default_params = PyDict [(PyStr ''step'', PyInt 10)],
      parse_params = example_parse_params,
      init_raises = (\<lambda>c args kwargs. None),
      call_instance = (\<lambda>f args kwargs. Inl TypeError)\<rparr>"

text \<open>The parameters and the task that follow are those the example environment produces.\<close>

definition example_params :: "string \<Rightarrow> pyval list \<Rightarrow> pyval" where
  "example_params model_class metrics =
     PyDict [
       (PyStr ''metrics'', PyList metrics),
       (PyStr ''model_class'', PyStr model_class),
       (PyStr ''model_params'', PyDict []),
       (PyStr ''hooks'', PyList [
          PyDict [
            (PyStr ''class'', PyStr ''PrintModelAnalysisHook''),
            (PyStr ''params'', PyDict [])],
          PyDict [
            (PyStr ''class'', PyStr ''MetadataCaptureHook''),
            (PyStr ''params'', PyDict [(PyStr ''step'', PyInt 10)])]])]"

definition example_task :: "pyval list \<Rightarrow> TrainingTask" where
  "example_task metrics =
     \<lparr>params = example_params ''BasicSeq2Seq'' metrics, model_cls = PyClass ''BasicSeq2Seq''\<rparr>"

definition example_estimator :: estimator where
  "example_estimator = \<lparr>model_dir = PyStr ''/tmp/model''\<rparr>"

text \<open>The example environment with a \<^verbatim>\<open>locate\<close> that finds nothing.\<close>

definition offline_env :: pyenv where
  "offline_env = example_env\<lparr>locate := (\<lambda>path. Inr PyNone)\<rparr>"



section \<open>Resolving a name\<close>

text \<open>
  On a string, \<^verbatim>\<open>locate(name) or getattr(module, name)\<close> is the object that \<open>locate\<close>
  finds when that object is truthy, and the attribute of the module otherwise.
\<close>

lemma locate_or_getattr_str:
  "locate_or_getattr env attrs (PyStr name) =
     (case locate env name of
        Inl e \<Rightarrow> Inl e
      | Inr found \<Rightarrow>
         if truthy found then Inr found
         else (case attrs name of None \<Rightarrow> Inl AttributeError | Some v \<Rightarrow> Inr v))"
  by (simp add: locate_or_getattr_def split: sum.splits)

lemma locate_or_getattr_not_str:
  "\<forall>s. name \<noteq> PyStr s \<Longrightarrow> locate_or_getattr env attrs name = Inl AttributeError"
  by (cases name) (simp_all add: locate_or_getattr_def)

lemma TrainingTask_init_resolved:
  assumes "parse_params env user_params (default_params env) = Inr p"
    and "py_getitem p (PyStr ''model_class'') = Inr (PyStr name)"
  shows "TrainingTask_init env user_params =
     (case locate env name of
        Inl e \<Rightarrow> Inl e
      | Inr found \<Rightarrow>
         if truthy found then Inr \<lparr>params = p, model_cls = found\<rparr>
         else (case models env name of
                 None \<Rightarrow> Inl AttributeError
               | Some cls \<Rightarrow> Inr \<lparr>params = p, model_cls = cls\<rparr>))"
  using assms
  by (simp add: TrainingTask_init_def Configurable_init_def locate_or_getattr_str
           split: sum.splits option.splits)

lemma pydoc_locate_empty:
  "pydoc_locate safeimport attr_of [] = Inr (PyModule ''builtins'')"
  by (simp add: pydoc_locate_def)

lemma example_default_params:
  "default_params example_env = example_params [] []"
  by (simp add: default_params_def example_env_def example_params_def)

lemma example_parse_params:
  "parse_params example_env (PyDict [(PyStr ''model_class'', PyStr name)]) (example_params [] [])
     = Inr (example_params name [])"
  by (simp add: example_env_def example_params_def)

lemma example_parse_empty:
  "parse_params example_env (PyDict []) (example_params [] []) = Inr (example_params [] [])"
  by (simp add: example_env_def example_params_def)

lemma example_model_class:
  "py_getitem (example_params name metrics) (PyStr ''model_class'') = Inr (PyStr name)"
  by (simp add: example_params_def)

lemma example_locate_dotted:
  "locate example_env ''seq2seq.models.BasicSeq2Seq'' = Inr (PyClass ''BasicSeq2Seq'')"
  by (simp add: example_env_def pydoc_locate_def example_safeimport_def example_models_def)

lemma example_locate_short:
  "locate example_env ''BasicSeq2Seq'' = Inr PyNone"
  by (simp add: example_env_def pydoc_locate_def example_safeimport_def)

lemma example_locate_unknown:
  "locate example_env ''Nope'' = Inr PyNone"
  by (simp add: example_env_def pydoc_locate_def example_safeimport_def)

lemma example_locate_empty: "locate example_env [] = Inr (PyModule ''builtins'')"
  by (simp add: example_env_def pydoc_locate_empty)

lemma example_models_attrs:
  "models example_env ''BasicSeq2Seq'' = Some (PyClass ''BasicSeq2Seq'')"
  "models example_env ''Nope'' = None"
  by (simp_all add: example_env_def example_models_def)

lemma offline_default_params:
  "default_params offline_env = example_params [] []"
  by (simp add: default_params_def offline_env_def example_env_def example_params_def)

lemma offline_parse_empty:
  "parse_params offline_env (PyDict []) (example_params [] []) = Inr (example_params [] [])"
  by (simp add: offline_env_def example_env_def example_params_def)

lemma offline_locate: "locate offline_env path = Inr PyNone"
  by (simp add: offline_env_def)

lemma offline_models_empty: "models offline_env [] = None"
  by (simp add: offline_env_def example_env_def example_models_def)

lemma example_init_short:
  "TrainingTask_init example_env (PyDict [(PyStr ''model_class'', PyStr ''BasicSeq2Seq'')])
     = Inr (example_task [])"
proof -
  have p: "parse_params example_env (PyDict [(PyStr ''model_class'', PyStr ''BasicSeq2Seq'')])
       (default_params example_env) = Inr (example_params ''BasicSeq2Seq'' [])"
    by (simp only: example_default_params example_parse_params)
  show ?thesis
    by (simp add: TrainingTask_init_resolved [OF p example_model_class] example_locate_short
          example_models_attrs(1) example_task_def)
qed

lemma example_task_items:
  "py_getitem (params (example_task metrics)) (PyStr ''metrics'') = Inr (PyList metrics)"
  "py_getitem (params (example_task metrics)) (PyStr ''model_params'') = Inr (PyDict [])"
  "py_getitem (params (example_task metrics)) (PyStr ''hooks'') =
     Inr (PyList [
       PyDict [(PyStr ''class'', PyStr ''PrintModelAnalysisHook''), (PyStr ''params'', PyDict [])],
       PyDict [(PyStr ''class'', PyStr ''MetadataCaptureHook''),
               (PyStr ''params'', PyDict [(PyStr ''step'', PyInt 10)])]])"
  by (simp_all add: example_task_def example_params_def)

lemma example_hook_locate:
  "locate example_env ''PrintModelAnalysisHook'' = Inr PyNone"
  "locate example_env ''MetadataCaptureHook'' = Inr PyNone"
  by (simp_all add: example_env_def pydoc_locate_def example_safeimport_def)

lemma example_hooks_attrs:
  "hooks example_env ''PrintModelAnalysisHook'' = Some (PyClass ''PrintModelAnalysisHook'')"
  "hooks example_env ''MetadataCaptureHook'' = Some (PyClass ''MetadataCaptureHook'')"
  by (simp_all add: example_env_def example_hooks_def)

lemma example_init_raises: "init_raises example_env c args kwargs = None"
  by (simp add: example_env_def)

lemma example_create_training_hooks:
  "fst (create_training_hooks example_env (example_task []) example_estimator) =
     Inr (PyList [
       PyInst ''PrintModelAnalysisHook'' [PyDict [], PyStr ''/tmp/model''] [],
       PyInst ''MetadataCaptureHook''
         [PyDict [(PyStr ''step'', PyInt 10)], PyStr ''/tmp/model''] []])"
  by (simp add: create_training_hooks_def example_task_items(3) create_hook_def
        locate_or_getattr_str example_hook_locate example_hooks_attrs example_init_raises
        example_estimator_def)

lemma example_metric_specs:
  "METRIC_SPECS_DICT example_env = [(PyStr ''bleu'', PyInst ''BleuMetricSpec'' [] [])]"
  by (simp add: example_env_def)

section \<open>The constructor\<close>

text \<open>
  C1. Let the merge of the constructor give the parameters \<open>p\<close>, with the string
  \<open>name\<close> under 'model\_class'. When \<^verbatim>\<open>locate(name)\<close> is truthy the task stores that
  object as its model class; when it is falsy and \<^verbatim>\<open>seq2seq.models\<close> has the attribute
  \<open>name\<close>, the task stores the attribute; and a constructed task always holds \<open>p\<close> and
  one of these two objects, the attribute only when \<^verbatim>\<open>locate\<close> gave a falsy value.
\<close>

theorem init_stores_resolved_class:
  assumes "parse_params env user_params (default_params env) = Inr p"
    and "py_getitem p (PyStr ''model_class'') = Inr (PyStr name)"
  shows "(\<forall>found. locate env name = Inr found \<and> truthy found \<longrightarrow>
            TrainingTask_init env user_params = Inr \<lparr>params = p, model_cls = found\<rparr>)
       \<and> (\<forall>found cls. locate env name = Inr found \<and> \<not> truthy found
              \<and> models env name = Some cls \<longrightarrow>
            TrainingTask_init env user_params = Inr \<lparr>params = p, model_cls = cls\<rparr>)
       \<and> (\<forall>task. TrainingTask_init env user_params = Inr task \<longrightarrow>
            params task = p
            \<and> (\<exists>found. locate env name = Inr found
                  \<and> (if truthy found then model_cls task = found
                      else models env name = Some (model_cls task))))"
  by (auto simp: TrainingTask_init_resolved [OF assms] split: sum.splits option.splits if_splits)

text \<open>
  Both ways of resolving, run in the example environment: the dotted path is found by
  \<^verbatim>\<open>locate\<close>, the bare class name only as an attribute of \<^verbatim>\<open>seq2seq.models\<close>.
\<close>

theorem init_stores_resolved_class_witness:
  "parse_params example_env (PyDict [(PyStr ''model_class'', PyStr ''seq2seq.models.BasicSeq2Seq'')])
       (default_params example_env) = Inr (example_params ''seq2seq.models.BasicSeq2Seq'' [])
   \<and> py_getitem (example_params ''seq2seq.models.BasicSeq2Seq'' []) (PyStr ''model_class'')
       = Inr (PyStr ''seq2seq.models.BasicSeq2Seq'')
   \<and> locate example_env ''seq2seq.models.BasicSeq2Seq'' = Inr (PyClass ''BasicSeq2Seq'')
   \<and> truthy (PyClass ''BasicSeq2Seq'')
   \<and> TrainingTask_init example_env
         (PyDict [(PyStr ''model_class'', PyStr ''seq2seq.models.BasicSeq2Seq'')])
       = Inr \<lparr>params = example_params ''seq2seq.models.BasicSeq2Seq'' [],
              model_cls = PyClass ''BasicSeq2Seq''\<rparr>
   \<and> parse_params example_env (PyDict [(PyStr ''model_class'', PyStr ''BasicSeq2Seq'')])
       (default_params example_env) = Inr (example_params ''BasicSeq2Seq'' [])
   \<and> py_getitem (example_params ''BasicSeq2Seq'' []) (PyStr ''model_class'')
       = Inr (PyStr ''BasicSeq2Seq'')
   \<and> locate example_env ''BasicSeq2Seq'' = Inr PyNone
   \<and> \<not> truthy PyNone
   \<and> models example_env ''BasicSeq2Seq'' = Some (PyClass ''BasicSeq2Seq'')
   \<and> TrainingTask_init example_env (PyDict [(PyStr ''model_class'', PyStr ''BasicSeq2Seq'')])
       = Inr \<lparr>params = example_params ''BasicSeq2Seq'' [], model_cls = PyClass ''BasicSeq2Seq''\<rparr>"
proof -
  let ?long = "''seq2seq.models.BasicSeq2Seq''" and ?short = "''BasicSeq2Seq''"
  have p1: "parse_params example_env (PyDict [(PyStr ''model_class'', PyStr ?long)])
       (default_params example_env) = Inr (example_params ?long [])"
    by (simp only: example_default_params example_parse_params)
  have p2: "parse_params example_env (PyDict [(PyStr ''model_class'', PyStr ?short)])
       (default_params example_env) = Inr (example_params ?short [])"
    by (simp only: example_default_params example_parse_params)
  note g1 = example_model_class [of ?long "[]"] and g2 = example_model_class [of ?short "[]"]
  have r1: "TrainingTask_init example_env (PyDict [(PyStr ''model_class'', PyStr ?long)])
       = Inr \<lparr>params = example_params ?long [], model_cls = PyClass ''BasicSeq2Seq''\<rparr>"
    using conjunct1 [OF init_stores_resolved_class [OF p1 g1]] example_locate_dotted
    by simp
  have r2: "TrainingTask_init example_env (PyDict [(PyStr ''model_class'', PyStr ?short)])
       = Inr \<lparr>params = example_params ?short [], model_cls = PyClass ''BasicSeq2Seq''\<rparr>"
    using conjunct1 [OF conjunct2 [OF init_stores_resolved_class [OF p2 g2]]]
      example_locate_short example_models_attrs(1)
    by simp
  show ?thesis
    by (intro conjI p1 p2 g1 g2 r1 r2 example_locate_dotted example_locate_short
          example_models_attrs(1)) simp_all
qed

text \<open>
  C5, as the claim states it, fails in its last clause: construction is said to succeed
  exactly when resolution yields a class. Lines 51-52 store whatever the resolution
  yields and never check that it is a class. The name 'seq2seq.models' is found by
  \<^verbatim>\<open>locate\<close> as a module, which is truthy, so construction succeeds with a module stored
  as the model class.
\<close>

theorem init_stores_module_counterexample:
  "TrainingTask_init example_env (PyDict [(PyStr ''model_class'', PyStr ''seq2seq.models'')])
     = Inr \<lparr>params = example_params ''seq2seq.models'' [],
            model_cls = PyModule ''seq2seq.models''\<rparr>"
proof -
  have p: "parse_params example_env (PyDict [(PyStr ''model_class'', PyStr ''seq2seq.models'')])
       (default_params example_env) = Inr (example_params ''seq2seq.models'' [])"
    by (simp only: example_default_params example_parse_params)
  have l: "locate example_env ''seq2seq.models'' = Inr (PyModule ''seq2seq.models'')"
    by (simp add: example_env_def pydoc_locate_def example_safeimport_def)
  show ?thesis
    by (simp add: TrainingTask_init_resolved [OF p example_model_class] l)
qed

text \<open>
  C5, amended. Let the merge of the constructor give the parameters \<open>p\<close>, with the string
  \<open>name\<close> under 'model\_class'. A name that \<^verbatim>\<open>locate\<close> does not find (its result is
  falsy) and that is no attribute of \<^verbatim>\<open>seq2seq.models\<close> makes the constructor raise
  AttributeError, so that no task is produced; and the constructor returns a task exactly
  when the resolution yields an object, that is, when \<^verbatim>\<open>locate\<close> returns a truthy object
  or returns a falsy one and the module has the attribute. The object need not be a class.
\<close>

theorem init_fails_iff_unresolved:
  assumes "parse_params env user_params (default_params env) = Inr p"
    and "py_getitem p (PyStr ''model_class'') = Inr (PyStr name)"
  shows "(\<forall>found. locate env name = Inr found \<and> \<not> truthy found \<and> models env name = None \<longrightarrow>
            TrainingTask_init env user_params = Inl AttributeError)
       \<and> ((\<exists>task. TrainingTask_init env user_params = Inr task) \<longleftrightarrow>
            (\<exists>found. locate env name = Inr found
               \<and> (truthy found \<or> (\<exists>cls. models env name = Some cls))))"
  by (auto simp: TrainingTask_init_resolved [OF assms] split: sum.splits option.splits if_splits)

text \<open>The name 'Nope' resolves to nothing in the example environment.\<close>

theorem init_fails_iff_unresolved_witness:
  "parse_params example_env (PyDict [(PyStr ''model_class'', PyStr ''Nope'')])
       (default_params example_env) = Inr (example_params ''Nope'' [])
   \<and> py_getitem (example_params ''Nope'' []) (PyStr ''model_class'') = Inr (PyStr ''Nope'')
   \<and> locate example_env ''Nope'' = Inr PyNone
   \<and> \<not> truthy PyNone
   \<and> models example_env ''Nope'' = None
   \<and> TrainingTask_init example_env (PyDict [(PyStr ''model_class'', PyStr ''Nope'')])
       = Inl AttributeError"
proof -
  have p: "parse_params example_env (PyDict [(PyStr ''model_class'', PyStr ''Nope'')])
       (default_params example_env) = Inr (example_params ''Nope'' [])"
    by (simp only: example_default_params example_parse_params)
  note g = example_model_class [of "''Nope''" "[]"]
  from init_fails_iff_unresolved [OF p g]
  show ?thesis
    using p g example_locate_unknown example_models_attrs(2) by simp
qed

text \<open>
  C8, as the claim states it, fails: it says that a task cannot be constructed from the
  defaults alone, because \<^verbatim>\<open>locate('')\<close> finds nothing. The empty path has no parts, so
  \<^verbatim>\<open>pydoc.locate\<close> runs neither of its loops and returns the module \<^verbatim>\<open>builtins\<close>, which
  is truthy. With an empty dictionary from the caller the constructor therefore succeeds
  and stores that module as the model class.
\<close>

theorem init_from_defaults_counterexample:
  "TrainingTask_init example_env (PyDict [])
     = Inr \<lparr>params = default_params example_env, model_cls = PyModule ''builtins''\<rparr>"
proof -
  have p: "parse_params example_env (PyDict []) (default_params example_env)
             = Inr (default_params example_env)"
    by (simp only: example_default_params example_parse_empty)
  have g: "py_getitem (default_params example_env) (PyStr ''model_class'') = Inr (PyStr [])"
    by (simp only: example_default_params example_model_class)
  show ?thesis
    by (simp add: TrainingTask_init_resolved [OF p g] example_locate_empty)
qed

text \<open>
  C8, amended. When the merged parameters have the empty string under 'model\_class', the
  constructor raises AttributeError if \<^verbatim>\<open>locate('')\<close> is falsy and \<^verbatim>\<open>seq2seq.models\<close>
  has no attribute of the empty name, and it succeeds, storing the object found, if
  \<^verbatim>\<open>locate('')\<close> is truthy; \<^verbatim>\<open>pydoc.locate('')\<close> is the truthy module \<^verbatim>\<open>builtins\<close>
  whatever can be imported.
\<close>

theorem init_from_defaults:
  assumes "parse_params env user_params (default_params env) = Inr p"
    and "py_getitem p (PyStr ''model_class'') = Inr (PyStr [])"
  shows "(\<forall>found. locate env [] = Inr found \<and> \<not> truthy found \<and> models env [] = None \<longrightarrow>
            TrainingTask_init env user_params = Inl AttributeError)
       \<and> (\<forall>found. locate env [] = Inr found \<and> truthy found \<longrightarrow>
            TrainingTask_init env user_params = Inr \<lparr>params = p, model_cls = found\<rparr>)
       \<and> pydoc_locate safeimport attr_of [] = Inr (PyModule ''builtins'')
       \<and> truthy (PyModule ''builtins'')"
  by (auto simp: TrainingTask_init_resolved [OF assms] pydoc_locate_empty)

text \<open>
  Both cases: the example environment, where \<^verbatim>\<open>locate\<close> is that of pydoc, and the
  environment in which \<^verbatim>\<open>locate\<close> finds nothing.
\<close>

theorem init_from_defaults_witness:
  "parse_params example_env (PyDict []) (default_params example_env)
     = Inr (default_params example_env)
   \<and> py_getitem (default_params example_env) (PyStr ''model_class'') = Inr (PyStr [])
   \<and> locate example_env [] = Inr (PyModule ''builtins'')
   \<and> truthy (PyModule ''builtins'')
   \<and> TrainingTask_init example_env (PyDict [])
       = Inr \<lparr>params = default_params example_env, model_cls = PyModule ''builtins''\<rparr>
   \<and> parse_params offline_env (PyDict []) (default_params offline_env)
       = Inr (default_params offline_env)
   \<and> py_getitem (default_params offline_env) (PyStr ''model_class'') = Inr (PyStr [])
   \<and> locate offline_env [] = Inr PyNone
   \<and> \<not> truthy PyNone
   \<and> models offline_env [] = None
   \<and> TrainingTask_init offline_env (PyDict []) = Inl AttributeError"
proof -
  have p: "parse_params example_env (PyDict []) (default_params example_env)
             = Inr (default_params example_env)"
    by (simp only: example_default_params example_parse_empty)
  have g: "py_getitem (default_params example_env) (PyStr ''model_class'') = Inr (PyStr [])"
    by (simp only: example_default_params example_model_class)
  have r: "TrainingTask_init example_env (PyDict [])
       = Inr \<lparr>params = default_params example_env, model_cls = PyModule ''builtins''\<rparr>"
    using conjunct1 [OF conjunct2 [OF init_from_defaults [OF p g]]] example_locate_empty
    by simp
  have p': "parse_params offline_env (PyDict []) (default_params offline_env)
             = Inr (default_params offline_env)"
    by (simp only: offline_default_params offline_parse_empty)
  have g': "py_getitem (default_params offline_env) (PyStr ''model_class'') = Inr (PyStr [])"
    by (simp only: offline_default_params example_model_class)
  have r': "TrainingTask_init offline_env (PyDict []) = Inl AttributeError"
    using conjunct1 [OF init_from_defaults [OF p' g']] offline_locate offline_models_empty
    by simp
  show ?thesis
    by (intro conjI p g r p' g' r' example_locate_empty offline_locate offline_models_empty)
      simp_all
qed

section \<open>The default configuration\<close>

text \<open>
  C6. \<^verbatim>\<open>default_params()\<close> always returns the dictionary with exactly the four keys
  'metrics' (the empty list), 'model\_class' (the empty string), 'model\_params' (the
  empty dictionary) and 'hooks' (two entries, 'PrintModelAnalysisHook' first and
  'MetadataCaptureHook' second, each paired with the \<^verbatim>\<open>default_params()\<close> of that hook
  class); and the parameters of a constructed task are the merge of the dictionary of the
  caller with this one.
\<close>

theorem default_params_entries:
  "py_getitem (default_params env) (PyStr ''metrics'') = Inr (PyList [])
   \<and> py_getitem (default_params env) (PyStr ''model_class'') = Inr (PyStr '''')
   \<and> py_getitem (default_params env) (PyStr ''model_params'') = Inr (PyDict [])
   \<and> py_getitem (default_params env) (PyStr ''hooks'') =
       Inr (PyList [
         PyDict [(PyStr ''class'', PyStr ''PrintModelAnalysisHook''),
                 (PyStr ''params'', PrintModelAnalysisHook_default_params env)],
         PyDict [(PyStr ''class'', PyStr ''MetadataCaptureHook''),
                 (PyStr ''params'', MetadataCaptureHook_default_params env)]])
   \<and> py_iter (default_params env) =
       Inr [PyStr ''metrics'', PyStr ''model_class'', PyStr ''model_params'', PyStr ''hooks'']
   \<and> (\<forall>task. TrainingTask_init env user_params = Inr task \<longrightarrow>
         parse_params env user_params (default_params env) = Inr (params task))"
  by (auto simp: default_params_def Configurable_init_def TrainingTask_init_def
           split: sum.splits)

text \<open>A constructed task of the example environment holds the merged dictionary.\<close>

theorem default_params_entries_witness:
  "TrainingTask_init example_env (PyDict [(PyStr ''model_class'', PyStr ''BasicSeq2Seq'')])
     = Inr (example_task [])
   \<and> parse_params example_env (PyDict [(PyStr ''model_class'', PyStr ''BasicSeq2Seq'')])
       (default_params example_env) = Inr (params (example_task []))"
proof -
  from default_params_entries
    [of example_env "PyDict [(PyStr ''model_class'', PyStr ''BasicSeq2Seq'')]"]
  have "\<forall>task. TrainingTask_init example_env
            (PyDict [(PyStr ''model_class'', PyStr ''BasicSeq2Seq'')]) = Inr task \<longrightarrow>
          parse_params example_env (PyDict [(PyStr ''model_class'', PyStr ''BasicSeq2Seq'')])
            (default_params example_env) = Inr (params task)"
    by (elim conjE)
  with example_init_short show ?thesis by blast
qed

section \<open>Creating the model\<close>

text \<open>
  C4. When the model class of the task is a class \<open>c\<close> whose constructor does not raise,
  \<^verbatim>\<open>create_model(mode)\<close> returns an instance of \<open>c\<close> constructed with no positional
  argument and with exactly the two keyword arguments \<open>params\<close>, the value of
  \<^verbatim>\<open>self.params['model_params']\<close> as it is, and \<open>mode\<close>, the mode given.
\<close>

theorem create_model_instance:
  assumes "py_getitem (params self) (PyStr ''model_params'') = Inr model_params"
    and "model_cls self = PyClass c"
    and "init_raises env c [] [(''params'', model_params), (''mode'', mode)] = None"
  shows "fst (create_model env self mode)
           = Inr (PyInst c [] [(''params'', model_params), (''mode'', mode)])"
  using assms by (simp add: create_model_def)

text \<open>The example task creates a model in the mode 'train'.\<close>

theorem create_model_instance_witness:
  "py_getitem (params (example_task [])) (PyStr ''model_params'') = Inr (PyDict [])
   \<and> model_cls (example_task []) = PyClass ''BasicSeq2Seq''
   \<and> init_raises example_env ''BasicSeq2Seq'' []
        [(''params'', PyDict []), (''mode'', PyStr ''train'')] = None
   \<and> fst (create_model example_env (example_task []) (PyStr ''train''))
        = Inr (PyInst ''BasicSeq2Seq'' [] [(''params'', PyDict []), (''mode'', PyStr ''train'')])"
proof -
  have c: "model_cls (example_task []) = PyClass ''BasicSeq2Seq''"
    by (simp add: example_task_def)
  have r: "init_raises example_env ''BasicSeq2Seq'' []
        [(''params'', PyDict []), (''mode'', PyStr ''train'')] = None"
    by (simp add: example_env_def)
  show ?thesis
    using create_model_instance [OF example_task_items(2) c r] example_task_items(2) c r
    by simp
qed

section \<open>Creating the training hooks\<close>

text \<open>
  One pass of the loop succeeds exactly when the entry has a string under 'class', the
  name resolves, the entry has a value under 'params' and the call of what the name
  resolved to returns.
\<close>

lemma create_hook_iff:
  "create_hook env est entry = Inr hook \<longleftrightarrow>
     (\<exists>name found cls hook_params.
        py_getitem entry (PyStr ''class'') = Inr (PyStr name)
        \<and> locate env name = Inr found
        \<and> (if truthy found then cls = found else hooks env name = Some cls)
        \<and> py_getitem entry (PyStr ''params'') = Inr hook_params
        \<and> py_call env cls [hook_params, model_dir est] [] = Inr hook)"
proof (cases "py_getitem entry (PyStr ''class'')")
  case (Inl e)
  then show ?thesis by (simp add: create_hook_def)
next
  case (Inr v)
  show ?thesis
  proof (cases "\<exists>name. v = PyStr name")
    case False
    then have "locate_or_getattr env (hooks env) v = Inl AttributeError"
      by (simp add: locate_or_getattr_not_str)
    with Inr False show ?thesis by (simp add: create_hook_def)
  next
    case True
    then obtain name where v: "v = PyStr name" by blast
    show ?thesis
      using Inr v
      by (auto simp: create_hook_def locate_or_getattr_str split: sum.splits option.splits if_splits)
  qed
qed

lemma hooks_loop_iff:
  "hooks_loop env est entries acc = Inr r \<longleftrightarrow>
     (\<exists>hs. r = acc @ hs \<and> list_all2 (\<lambda>e h. create_hook env est e = Inr h) entries hs)"
proof (induction entries arbitrary: acc)
  case Nil
  then show ?case by auto
next
  case (Cons entry rest)
  show ?case
  proof (cases "create_hook env est entry")
    case (Inl e)
    then show ?thesis by (auto simp: list_all2_Cons1)
  next
    case (Inr hook)
    then show ?thesis
      by (auto simp: Cons.IH list_all2_Cons1)
  qed
qed

text \<open>
  C2. When \<^verbatim>\<open>self.params['hooks']\<close> is a list, \<^verbatim>\<open>create_training_hooks(estimator)\<close>
  returns a value exactly when that value is a list with one hook for each entry, in the
  order of the entries, where the hook of an entry is the result of calling the object
  that the entry's 'class' string resolves to (what \<^verbatim>\<open>locate\<close> finds if truthy, the
  attribute of \<^verbatim>\<open>seq2seq.training.hooks\<close> otherwise) on the entry's 'params' value as
  it is and \<^verbatim>\<open>estimator.model_dir\<close>; when that object is a class, the hook is an instance
  of it constructed from these two arguments.
\<close>

theorem create_training_hooks_result:
  assumes "py_getitem (params self) (PyStr ''hooks'') = Inr (PyList entries)"
  shows "fst (create_training_hooks env self est) = Inr result \<longleftrightarrow>
     (\<exists>training_hooks. result = PyList training_hooks
        \<and> list_all2
            (\<lambda>entry hook.
               \<exists>name found cls hook_params.
                 py_getitem entry (PyStr ''class'') = Inr (PyStr name)
                 \<and> locate env name = Inr found
                 \<and> (if truthy found then cls = found else hooks env name = Some cls)
                 \<and> py_getitem entry (PyStr ''params'') = Inr hook_params
                 \<and> py_call env cls [hook_params, model_dir est] [] = Inr hook
                 \<and> (\<forall>c. cls = PyClass c \<longrightarrow>
                       hook = PyInst c [hook_params, model_dir est] []))
            entries training_hooks)"
proof -
  have body: "(\<lambda>entry hook. create_hook env est entry = Inr hook) =
     (\<lambda>entry hook.
               \<exists>name found cls hook_params.
                 py_getitem entry (PyStr ''class'') = Inr (PyStr name)
                 \<and> locate env name = Inr found
                 \<and> (if truthy found then cls = found else hooks env name = Some cls)
                 \<and> py_getitem entry (PyStr ''params'') = Inr hook_params
                 \<and> py_call env cls [hook_params, model_dir est] [] = Inr hook
                 \<and> (\<forall>c. cls = PyClass c \<longrightarrow>
                       hook = PyInst c [hook_params, model_dir est] []))"
    (is "?L = ?R")
  proof (intro ext)
    fix entry hook
    have "\<And>cls hook_params. py_call env cls [hook_params, model_dir est] [] = Inr hook \<Longrightarrow>
            (\<forall>c. cls = PyClass c \<longrightarrow> hook = PyInst c [hook_params, model_dir est] [])"
      by (auto split: option.splits)
    then show "?L entry hook = ?R entry hook"
      unfolding create_hook_iff by blast
  qed
  have "fst (create_training_hooks env self est) = Inr result \<longleftrightarrow>
          (\<exists>hs. hooks_loop env est entries [] = Inr hs \<and> result = PyList hs)"
    using assms by (auto simp: create_training_hooks_def split: sum.splits)
  also have "\<dots> \<longleftrightarrow> (\<exists>hs. result = PyList hs
                 \<and> list_all2 (\<lambda>entry hook. create_hook env est entry = Inr hook) entries hs)"
    by (auto simp: hooks_loop_iff)
  finally show ?thesis
    unfolding body .
qed

text \<open>The two default hooks, created in the example environment.\<close>

theorem create_training_hooks_result_witness:
  "py_getitem (params (example_task [])) (PyStr ''hooks'') =
     Inr (PyList [
       PyDict [(PyStr ''class'', PyStr ''PrintModelAnalysisHook''), (PyStr ''params'', PyDict [])],
       PyDict [(PyStr ''class'', PyStr ''MetadataCaptureHook''),
               (PyStr ''params'', PyDict [(PyStr ''step'', PyInt 10)])]])
   \<and> fst (create_training_hooks example_env (example_task []) example_estimator) =
     Inr (PyList [
       PyInst ''PrintModelAnalysisHook'' [PyDict [], PyStr ''/tmp/model''] [],
       PyInst ''MetadataCaptureHook''
         [PyDict [(PyStr ''step'', PyInt 10)], PyStr ''/tmp/model''] []])
   \<and> list_all2
        (\<lambda>entry hook.
           \<exists>name found cls hook_params.
             py_getitem entry (PyStr ''class'') = Inr (PyStr name)
             \<and> locate example_env name = Inr found
             \<and> (if truthy found then cls = found else hooks example_env name = Some cls)
             \<and> py_getitem entry (PyStr ''params'') = Inr hook_params
             \<and> py_call example_env cls [hook_params, model_dir example_estimator] [] = Inr hook
             \<and> (\<forall>c. cls = PyClass c \<longrightarrow>
                   hook = PyInst c [hook_params, model_dir example_estimator] []))
        [PyDict [(PyStr ''class'', PyStr ''PrintModelAnalysisHook''), (PyStr ''params'', PyDict [])],
         PyDict [(PyStr ''class'', PyStr ''MetadataCaptureHook''),
                 (PyStr ''params'', PyDict [(PyStr ''step'', PyInt 10)])]]
        [PyInst ''PrintModelAnalysisHook'' [PyDict [], PyStr ''/tmp/model''] [],
         PyInst ''MetadataCaptureHook''
           [PyDict [(PyStr ''step'', PyInt 10)], PyStr ''/tmp/model''] []]"
  (is "?H \<and> ?V \<and> ?R")
proof -
  have h: ?H by (rule example_task_items(3))
  have v: ?V by (rule example_create_training_hooks)
  from iffD1 [OF create_training_hooks_result [OF h] v]
  have ?R by blast
  with h v show ?thesis by blast
qed

section \<open>Creating the metrics\<close>

text \<open>
  The comprehension started from the dictionary \<open>acc\<close>: when every name is a key of the
  table it ends, and the result maps each name to its entry of the table and every other
  key as \<open>acc\<close> does; a name that is no key of the table makes it raise KeyError.
\<close>

lemma metrics_comprehension_known:
  assumes "\<forall>m\<in>set ms. hashable m \<and> m \<in> fst ` set (METRIC_SPECS_DICT env)"
  shows "\<exists>d. metrics_comprehension env ms acc = Inr d
           \<and> map_of d = (\<lambda>k. if k \<in> set ms then map_of (METRIC_SPECS_DICT env) k else map_of acc k)
           \<and> (distinct (map fst acc) \<longrightarrow> distinct (map fst d))
           \<and> (ms = [] \<longrightarrow> d = acc)"
  using assms
proof (induction ms arbitrary: acc)
  case Nil
  then show ?case by simp
next
  case (Cons m ms)
  from Cons.prems have hm: "hashable m" and "m \<in> fst ` set (METRIC_SPECS_DICT env)"
    by simp_all
  then obtain spec where spec: "map_of (METRIC_SPECS_DICT env) m = Some spec"
    by (metis domD dom_map_of_conv_image_fst)
  from Cons.prems have rest: "\<forall>m\<in>set ms. hashable m \<and> m \<in> fst ` set (METRIC_SPECS_DICT env)"
    by simp
  from Cons.IH [OF rest, of "AList.update m spec acc"]
  obtain d where d: "metrics_comprehension env ms (AList.update m spec acc) = Inr d"
    and md: "map_of d = (\<lambda>k. if k \<in> set ms then map_of (METRIC_SPECS_DICT env) k
                            else map_of (AList.update m spec acc) k)"
    and dd: "distinct (map fst (AList.update m spec acc)) \<longrightarrow> distinct (map fst d)"
    by blast
  have "metrics_comprehension env (m # ms) acc = Inr d"
    using hm spec d by simp
  moreover have "map_of d = (\<lambda>k. if k \<in> set (m # ms) then map_of (METRIC_SPECS_DICT env) k
                                  else map_of acc k)"
    using md spec by (auto simp: fun_eq_iff update_conv')
  moreover have "distinct (map fst acc) \<longrightarrow> distinct (map fst d)"
    using dd by (simp add: distinct_update)
  ultimately show ?case by simp
qed

lemma metrics_comprehension_unknown:
  assumes "\<forall>m\<in>set ms. hashable m"
    and "\<exists>m\<in>set ms. m \<notin> fst ` set (METRIC_SPECS_DICT env)"
  shows "metrics_comprehension env ms acc = Inl KeyError"
  using assms
proof (induction ms arbitrary: acc)
  case Nil
  then show ?case by simp
next
  case (Cons m ms)
  show ?case
  proof (cases "map_of (METRIC_SPECS_DICT env) m")
    case None
    with Cons.prems show ?thesis by simp
  next
    case (Some spec)
    then have "m \<in> fst ` set (METRIC_SPECS_DICT env)"
      by (metis domI dom_map_of_conv_image_fst)
    with Cons.prems have "\<exists>m\<in>set ms. m \<notin> fst ` set (METRIC_SPECS_DICT env)"
      by auto
    with Cons.IH Cons.prems(1) have "metrics_comprehension env ms (AList.update m spec acc) = Inl KeyError"
      by simp
    with Some Cons.prems(1) show ?thesis by simp
  qed
qed

text \<open>
  C3. When \<^verbatim>\<open>self.params['metrics']\<close> is a list whose every element is a key of
  \<^verbatim>\<open>METRIC_SPECS_DICT\<close>, \<^verbatim>\<open>create_metrics()\<close> returns a dictionary that maps each
  element \<open>m\<close> to \<^verbatim>\<open>METRIC_SPECS_DICT[m]\<close> as it is and has no other key; for the empty
  list it is the empty dictionary.
\<close>

theorem create_metrics_mapping:
  assumes "py_getitem (params self) (PyStr ''metrics'') = Inr (PyList ms)"
    and "\<forall>m\<in>set ms. hashable m \<and> m \<in> fst ` set (METRIC_SPECS_DICT env)"
  shows "\<exists>d. fst (create_metrics env self) = Inr (PyDict d)
           \<and> distinct (map fst d)
           \<and> map_of d = (\<lambda>k. if k \<in> set ms then map_of (METRIC_SPECS_DICT env) k else None)
           \<and> (ms = [] \<longrightarrow> d = [])"
proof -
  from metrics_comprehension_known [OF assms(2), of "[]"]
  obtain d where d: "metrics_comprehension env ms [] = Inr d"
    and m0: "map_of d = (\<lambda>k. if k \<in> set ms then map_of (METRIC_SPECS_DICT env) k
                            else map_of [] k)"
    and dd0: "distinct (map fst ([] :: (pyval \<times> pyval) list)) \<longrightarrow> distinct (map fst d)"
    and e: "ms = [] \<longrightarrow> d = []"
    by blast
  from m0 have m: "map_of d = (\<lambda>k. if k \<in> set ms then map_of (METRIC_SPECS_DICT env) k
                                 else None)"
    by (simp cong: if_cong)
  from dd0 have dd: "distinct (map fst d)"
    by simp
  have "fst (create_metrics env self) = Inr (PyDict d)"
    using assms(1) d by (simp add: create_metrics_def)
  with m dd e show ?thesis by blast
qed

text \<open>A metric named twice appears once in the result.\<close>

theorem create_metrics_mapping_witness:
  "py_getitem (params (example_task [PyStr ''bleu'', PyStr ''bleu''])) (PyStr ''metrics'')
     = Inr (PyList [PyStr ''bleu'', PyStr ''bleu''])
   \<and> hashable (PyStr ''bleu'')
   \<and> PyStr ''bleu'' \<in> fst ` set (METRIC_SPECS_DICT example_env)
   \<and> fst (create_metrics example_env (example_task [PyStr ''bleu'', PyStr ''bleu'']))
       = Inr (PyDict [(PyStr ''bleu'', PyInst ''BleuMetricSpec'' [] [])])
   \<and> (\<exists>d. fst (create_metrics example_env (example_task [PyStr ''bleu'', PyStr ''bleu'']))
             = Inr (PyDict d)
           \<and> distinct (map fst d)
           \<and> map_of d = (\<lambda>k. if k \<in> set [PyStr ''bleu'', PyStr ''bleu'']
                              then map_of (METRIC_SPECS_DICT example_env) k else None)
           \<and> ([PyStr ''bleu'', PyStr ''bleu''] = [] \<longrightarrow> d = []))"
  (is "?H1 \<and> ?H2 \<and> ?H3 \<and> ?V \<and> ?C")
proof -
  have h1: ?H1 by (rule example_task_items(1))
  have h2: ?H2 by simp
  have h3: ?H3 by (simp add: example_metric_specs)
  have h: "\<forall>m\<in>set [PyStr ''bleu'', PyStr ''bleu''].
             hashable m \<and> m \<in> fst ` set (METRIC_SPECS_DICT example_env)"
    using h3 by simp
  have v: ?V
    by (simp add: create_metrics_def example_task_items(1) example_metric_specs)
  have c: ?C by (rule create_metrics_mapping [OF h1 h])
  from h1 h2 h3 v c show ?thesis by blast
qed

text \<open>
  C7. When \<^verbatim>\<open>self.params['metrics']\<close> is a list of strings of which one is no key of
  \<^verbatim>\<open>METRIC_SPECS_DICT\<close>, \<^verbatim>\<open>create_metrics()\<close> raises KeyError, whatever the other
  names are, and the task after the call is the task before it.
\<close>

theorem create_metrics_unknown_name:
  assumes "py_getitem (params self) (PyStr ''metrics'') = Inr (PyList ms)"
    and "\<forall>m\<in>set ms. \<exists>s. m = PyStr s"
    and "\<exists>m\<in>set ms. m \<notin> fst ` set (METRIC_SPECS_DICT env)"
  shows "create_metrics env self = (Inl KeyError, self)"
proof -
  from assms(2) have "\<forall>m\<in>set ms. hashable m" by auto
  from metrics_comprehension_unknown [OF this assms(3)]
  have "metrics_comprehension env ms [] = Inl KeyError" .
  with assms(1) show ?thesis by (simp add: create_metrics_def)
qed

text \<open>The table of the example environment has no metric 'rouge'.\<close>

theorem create_metrics_unknown_name_witness:
  "py_getitem (params (example_task [PyStr ''bleu'', PyStr ''rouge''])) (PyStr ''metrics'')
     = Inr (PyList [PyStr ''bleu'', PyStr ''rouge''])
   \<and> list_all (\<lambda>m. \<exists>s. m = PyStr s) [PyStr ''bleu'', PyStr ''rouge'']
   \<and> (\<exists>m\<in>set [PyStr ''bleu'', PyStr ''rouge'']. m \<notin> fst ` set (METRIC_SPECS_DICT example_env))
   \<and> create_metrics example_env (example_task [PyStr ''bleu'', PyStr ''rouge''])
       = (Inl KeyError, example_task [PyStr ''bleu'', PyStr ''rouge''])"
  (is "?H1 \<and> ?H2 \<and> ?H3 \<and> ?C")
proof -
  have h1: ?H1 by (rule example_task_items(1))
  have h2: ?H2 by simp
  have h: "\<forall>m\<in>set [PyStr ''bleu'', PyStr ''rouge'']. \<exists>s. m = PyStr s"
    by simp
  have h3: ?H3 by (simp add: example_metric_specs)
  have c: ?C by (rule create_metrics_unknown_name [OF h1 h h3])
  from h1 h2 h3 c show ?thesis by blast
qed

section \<open>What the methods do to the task\<close>



lemma create_hook_shared_fst:
  "fst (create_hook_shared env arg_after est hook_dict) = create_hook env est hook_dict"
  by (simp add: create_hook_shared_def create_hook_def split: sum.splits)


lemma hooks_loop_shared_fst:
  "fst (hooks_loop_shared env arg_after est entries acc) = hooks_loop env est entries acc"
proof (induction entries arbitrary: acc)
  case Nil
  then show ?case by simp
next
  case (Cons hook_dict rest)
  show ?case
  proof (cases "create_hook env est hook_dict")
    case (Inl e)
    then have "fst (create_hook_shared env arg_after est hook_dict) = Inl e"
      by (simp add: create_hook_shared_fst)
    with Inl show ?thesis by (simp add: case_prod_beta)
  next
    case (Inr hook)
    then have "fst (create_hook_shared env arg_after est hook_dict) = Inr hook"
      by (simp add: create_hook_shared_fst)
    with Inr Cons.IH [of "acc @ [hook]"] show ?thesis by (simp add: case_prod_beta)
  qed
qed



lemma create_model_shared_fst:
  "fst (create_model_shared env arg_after self mode) = fst (create_model env self mode)"
  by (simp add: create_model_shared_def create_model_def split: sum.splits)

lemma create_training_hooks_shared_fst:
  "fst (create_training_hooks_shared env arg_after self est)
     = fst (create_training_hooks env self est)"
proof -
  show ?thesis
    by (simp add: create_training_hooks_shared_def create_training_hooks_def case_prod_beta
          hooks_loop_shared_fst split: sum.splits)
qed




end
